theory Spec2Isabelle
  imports Main "HOL-Library.Word"
begin

unbundle bit_operations_syntax

section \<open>Common types\<close>

type_synonym u32 = "32 word"
type_synonym u64 = "64 word"

text \<open>
  The ways in which either program stops instead of returning: \<open>panic()\<close>, a failed
  \<open>assert\<close>, and a load or store through a pointer that is \<open>NULL\<close>.
\<close>

datatype fatal = Panic | AssertFailed | NullDeref

section \<open>QEMU SBSA: the SiP service (src/unnamed/part 000)\<close>

subsection \<open>Function identifiers and status words\<close>

definition SMC_FASTCALL :: u32 where
  "SMC_FASTCALL = 0x80000000"

definition SMC64_FUNCTION :: u32 where
  "SMC64_FUNCTION = SMC_FASTCALL OR 0x40000000"

definition SIP_FUNCTION :: u32 where
  "SIP_FUNCTION = SMC64_FUNCTION OR 0x02000000"

definition SIP_FUNCTION_ID :: "u32 \<Rightarrow> u32" where
  "SIP_FUNCTION_ID n = SIP_FUNCTION OR n"

definition SIP_SVC_VERSION :: u32 where
  "SIP_SVC_VERSION = SIP_FUNCTION_ID 1"

definition SIP_SVC_GET_GIC :: u32 where
  "SIP_SVC_GET_GIC = SIP_FUNCTION_ID 100"

definition SIP_SVC_GET_GIC_ITS :: u32 where
  "SIP_SVC_GET_GIC_ITS = SIP_FUNCTION_ID 101"

definition SIP_SVC_GET_CPU_COUNT :: u32 where
  "SIP_SVC_GET_CPU_COUNT = SIP_FUNCTION_ID 200"

definition SIP_SVC_GET_CPU_NODE :: u32 where
  "SIP_SVC_GET_CPU_NODE = SIP_FUNCTION_ID 201"

text \<open>
  Modelled from the spec: the macros \<open>SMC_UNK\<close> and \<open>SMC_ARCH_CALL_INVAL_PARAM\<close> come
  from headers that are not part of the sources at hand. The spec asks for an
  "unknown function" status and an "invalid parameter" status distinct from it; the
  values are those of the SMC calling convention (-1 and -3), widened to a register.
\<close>

definition SMC_UNK :: u64 where
  "SMC_UNK = - 1"

definition SMC_ARCH_CALL_INVAL_PARAM :: u64 where
  "SMC_ARCH_CALL_INVAL_PARAM = - 3"

text \<open>
  Modelled from the spec: \<open>is_caller_non_secure\<close> is a macro of an absent header. The
  spec's caller-privilege flag is bit 0 of the flags word: set when the request comes
  from the non-secure (lower-privilege) world.
\<close>

definition SMC_FROM_NON_SECURE :: u64 where
  "SMC_FROM_NON_SECURE = 1"

definition is_caller_non_secure :: "u64 \<Rightarrow> u32" where
  "is_caller_non_secure f = (if f AND SMC_FROM_NON_SECURE \<noteq> 0 then 1 else 0)"

subsection \<open>The platform descriptor\<close>

record cpu_data =
  nodeid :: u32
  mpidr :: u32

text \<open>
  \<open>dynamic_platform_info\<close> is \<open>num_cpus\<close> and an array of \<open>PLATFORM_CORE_COUNT\<close>
  entries. The macro \<open>PLATFORM_CORE_COUNT\<close> is not defined in the sources at hand, so
  every function below takes it as the parameter \<open>pcc\<close>; the array is a list of that
  length. A store \<open>cpu[i] = d\<close> with \<open>i\<close> at or beyond the capacity leaves the array as
  it is and lands in the memory behind it: such stores are collected in \<open>overrun\<close>.
\<close>

record sbsa_state =
  platform_version_major :: u32
  platform_version_minor :: u32
  gic_its_addr :: u64
  gicd_base :: u64
  gicr_base :: u64
  num_cpus :: u32
  cpu :: "cpu_data list"
  overrun :: "(nat \<times> cpu_data) list"

text \<open>
  The statics are zero when the firmware starts. The two GIC bases live in another
  file and start at that platform's defaults.
\<close>

definition boot_state :: "nat \<Rightarrow> u64 \<Rightarrow> u64 \<Rightarrow> sbsa_state" where
  "boot_state pcc gicd gicr =
     \<lparr>platform_version_major = 0, platform_version_minor = 0, gic_its_addr = 0,
      gicd_base = gicd, gicr_base = gicr, num_cpus = 0,
      cpu = replicate pcc \<lparr>nodeid = 0, mpidr = 0\<rparr>, overrun = []\<rparr>"

subsection \<open>The hardware description blob, as libfdt shows it\<close>

text \<open>
  A property read through a typed reader: the property is missing (\<open>fdt_getprop\<close>
  gives \<open>NULL\<close>), it is there but the typed reader fails and leaves its out-parameter
  alone, or it is read.
\<close>

datatype 'a fdt_prop = Absent | Malformed | Present 'a

record cpu_node =
  reg :: "u64 fdt_prop"
  numa_node_id :: "u32 fdt_prop"

record intc_node =
  intc_reg :: bool
  intc_reg0 :: "u64 option"
  intc_reg1 :: "u64 option"
  its_offset :: int
  its_reg0 :: "u64 option"

text \<open>
  The fields are the answers of the libfdt calls the code makes: the results of
  \<open>fdt_open_into\<close> and \<open>fdt_check_header\<close>, the offsets \<open>fdt_path_offset\<close> gives for
  \<open>/\<close>, \<open>/intc\<close> and \<open>/cpus\<close> (negative when the path is missing), the two version
  properties (\<open>None\<close> when \<open>fdt_getprop\<close> gives \<open>NULL\<close>), and the node \<open>/cpus/cpu@0\<close>
  followed by its later siblings in the order \<open>fdt_next_subnode\<close> visits them (the
  empty list when \<open>/cpus/cpu@0\<close> is missing).
\<close>

record fdt =
  open_into_err :: int
  check_header_err :: int
  root_offset :: int
  machine_version_major :: "u32 option"
  machine_version_minor :: "u32 option"
  intc_offset :: int
  intc :: intc_node
  cpus_offset :: int
  cpu_nodes :: "cpu_node list"

subsection \<open>read_cpuinfo_from_dt\<close>

definition store_cpu :: "nat \<Rightarrow> sbsa_state \<Rightarrow> nat \<Rightarrow> cpu_data \<Rightarrow> sbsa_state" where
  "store_cpu pcc s i d =
     (if i < pcc then s\<lparr>cpu := (cpu s)[i := d]\<rparr>
      else s\<lparr>overrun := overrun s @ [(i, d)]\<rparr>)"

definition read_reg :: "cpu_node \<Rightarrow> u64 \<Rightarrow> u64" where
  "read_reg n m = (case reg n of Present v \<Rightarrow> v | _ \<Rightarrow> m)"

definition read_numa :: "cpu_node \<Rightarrow> u32 \<Rightarrow> u32" where
  "read_numa n k = (case numa_node_id n of Present v \<Rightarrow> v | _ \<Rightarrow> k)"

text \<open>
  The \<open>while (node > 0)\<close> loop: \<open>c\<close> is the local \<open>cpu\<close>, \<open>k\<close> the local \<open>nodeid\<close>,
  \<open>m\<close> the local \<open>mpidr\<close>. The result is the final \<open>cpu\<close> and the state.
\<close>

fun cpu_loop ::
  "nat \<Rightarrow> cpu_node list \<Rightarrow> nat \<Rightarrow> u32 \<Rightarrow> u64 \<Rightarrow> sbsa_state \<Rightarrow> nat \<times> sbsa_state" where
  "cpu_loop pcc [] c k m s = (c, s)"
| "cpu_loop pcc (n # ns) c k m s =
     cpu_loop pcc ns (c + 1) (read_numa n k) (read_reg n m)
       (store_cpu pcc s c \<lparr>nodeid = read_numa n k, mpidr = ucast (read_reg n m)\<rparr>)"

text \<open>
  \<open>mpidr\<close> is declared without an initial value: \<open>m0\<close> is whatever the local holds on
  entry. \<open>nodeid\<close> starts at 0.
\<close>

definition read_cpuinfo_from_dt :: "nat \<Rightarrow> u64 \<Rightarrow> fdt \<Rightarrow> sbsa_state \<Rightarrow> fatal + sbsa_state" where
  "read_cpuinfo_from_dt pcc m0 dtb s =
     (if cpus_offset dtb < 0 then Inl Panic
      else case cpu_loop pcc (cpu_nodes dtb) 0 0 m0 s of
             (c, s') \<Rightarrow> Inr (s'\<lparr>num_cpus := of_nat c\<rparr>))"

subsection \<open>read_platform_config_from_dt\<close>

definition sbsa_set_gic_bases :: "u64 \<Rightarrow> u64 \<Rightarrow> sbsa_state \<Rightarrow> sbsa_state" where
  "sbsa_set_gic_bases d r s = s\<lparr>gicd_base := d, gicr_base := r\<rparr>"

definition read_platform_config_from_dt :: "fdt \<Rightarrow> sbsa_state \<Rightarrow> sbsa_state" where
  "read_platform_config_from_dt dtb s =
     (if intc_offset dtb < 0 then s
      else if \<not> intc_reg (intc dtb) then s
      else case intc_reg0 (intc dtb) of
        None \<Rightarrow> s
      | Some d \<Rightarrow>
         (case intc_reg1 (intc dtb) of
            None \<Rightarrow> s
          | Some r \<Rightarrow>
             (let s1 = sbsa_set_gic_bases d r s in
              if its_offset (intc dtb) < 0 then s1
              else case its_reg0 (intc dtb) of
                     None \<Rightarrow> s1
                   | Some a \<Rightarrow> s1\<lparr>gic_its_addr := a\<rparr>)))"

subsection \<open>read_platform_version\<close>

text \<open>
  \<open>fdt32_ld p\<close> loads the big-endian word at \<open>p\<close>. The code passes it the result of
  \<open>fdt_getprop\<close> as it comes. When that is \<open>NULL\<close> the load is from address 0:
  \<open>null_word\<close> is the word found there, or \<open>None\<close> when the access faults.
\<close>

definition fdt32_ld :: "u32 option \<Rightarrow> u32 option \<Rightarrow> fatal + u32" where
  "fdt32_ld null_word p =
     (case p of
        Some v \<Rightarrow> Inr v
      | None \<Rightarrow> (case null_word of Some w \<Rightarrow> Inr w | None \<Rightarrow> Inl NullDeref))"

definition read_platform_version :: "u32 option \<Rightarrow> fdt \<Rightarrow> sbsa_state \<Rightarrow> fatal + sbsa_state" where
  "read_platform_version null_word dtb s =
     (if 0 \<le> root_offset dtb then
        (case fdt32_ld null_word (machine_version_major dtb) of
           Inl e \<Rightarrow> Inl e
         | Inr mj \<Rightarrow>
            (case fdt32_ld null_word (machine_version_minor dtb) of
               Inl e \<Rightarrow> Inl e
             | Inr mn \<Rightarrow>
                Inr (s\<lparr>platform_version_major := mj, platform_version_minor := mn\<rparr>)))
      else Inr s)"

subsection \<open>sip_svc_init\<close>

definition sip_svc_init ::
  "nat \<Rightarrow> u32 option \<Rightarrow> u64 \<Rightarrow> fdt \<Rightarrow> sbsa_state \<Rightarrow> fatal + sbsa_state" where
  "sip_svc_init pcc null_word m0 dtb s =
     (if open_into_err dtb < 0 then Inr s
      else if check_header_err dtb < 0 then Inr s
      else case read_platform_version null_word dtb s of
             Inl e \<Rightarrow> Inl e
           | Inr s1 \<Rightarrow> read_cpuinfo_from_dt pcc m0 dtb (read_platform_config_from_dt dtb s1))"

subsection \<open>sbsa_sip_smc_handler\<close>

text \<open>
  The result is the list of words that \<open>SMC_RET1\<close>, \<open>SMC_RET2\<close> or \<open>SMC_RET3\<close> writes
  to the caller's registers x0, x1, x2. \<open>NULL\<close> in the first slot is the word 0. The
  version fields are \<open>int\<close> and are sign-extended; the other fields are unsigned.
\<close>

definition sbsa_sip_smc_handler ::
  "nat \<Rightarrow> sbsa_state \<Rightarrow> u32 \<Rightarrow> u64 \<Rightarrow> u64 \<Rightarrow> u64 \<Rightarrow> u64 \<Rightarrow> u64 \<Rightarrow> u64 list" where
  "sbsa_sip_smc_handler pcc s smc_fid x1 x2 x3 x4 flags =
     (if is_caller_non_secure flags = 0 then [SMC_UNK]
      else if smc_fid = SIP_SVC_VERSION then
        [0, scast (platform_version_major s), scast (platform_version_minor s)]
      else if smc_fid = SIP_SVC_GET_GIC then [0, gicd_base s, gicr_base s]
      else if smc_fid = SIP_SVC_GET_GIC_ITS then [0, gic_its_addr s]
      else if smc_fid = SIP_SVC_GET_CPU_COUNT then [0, ucast (num_cpus s)]
      else if smc_fid = SIP_SVC_GET_CPU_NODE then
        (if unat x1 < pcc then
           [0, ucast (nodeid (cpu s ! unat x1)), ucast (mpidr (cpu s ! unat x1))]
         else [SMC_ARCH_CALL_INVAL_PARAM])
      else [SMC_UNK])"

section \<open>STM32MP1: bl2_plat_handle_post_image_load (plat/st/stm32mp1/bl2_plat_setup.c)\<close>

text \<open>
  The function is modelled as it is compiled when \<open>STM32MP_USE_STM32IMAGE\<close> is 0: the
  firmware-config case exists and the blocks under \<open>#if STM32MP_USE_STM32IMAGE\<close> do not.
  The platform is 32-bit, so addresses, sizes and registers are 32-bit words.
  Every \<open>assert\<close> is modelled as checked, as in a build with assertions enabled: a
  failed one stops the function with \<open>AssertFailed\<close>. A build that compiles the
  assertions out behaves the same on every input that satisfies them.
\<close>

subsection \<open>Image records\<close>

text \<open>
  Modelled from the spec: the image identifiers are macros of an absent header, distinct
  unsigned numbers. The seven identities the function names are constructors of their
  own; \<open>OTHER_IMAGE_ID n\<close> stands for any other identifier.
\<close>

datatype image_id =
    FW_CONFIG_ID
  | BL32_IMAGE_ID
  | BL32_EXTRA1_IMAGE_ID
  | BL32_EXTRA2_IMAGE_ID
  | BL33_IMAGE_ID
  | HW_CONFIG_ID
  | TOS_FW_CONFIG_ID
  | OTHER_IMAGE_ID nat

text \<open>
  The structures are declared in absent headers; the records hold the fields the
  function reads or writes (\<open>attr\<close> is \<open>image_info.h.attr\<close>, \<open>arg0\<close> to \<open>arg3\<close> are
  \<open>ep_info.args\<close>).
\<close>

record image_info_t =
  attr :: u32
  image_base :: u32
  image_size :: u32
  image_max_size :: u32

record entry_point_info_t =
  pc :: u32
  spsr :: u32
  lr_svc :: u32
  arg0 :: u32
  arg1 :: u32
  arg2 :: u32
  arg3 :: u32

record bl_mem_params_node_t =
  image_info :: image_info_t
  ep_info :: entry_point_info_t

text \<open>
  Modelled from the spec: \<open>get_bl_mem_params_node\<close> is defined in an absent file. The
  image descriptor table is a collection of records keyed by image identity; the lookup
  gives the record of an identity, or \<open>NULL\<close> (\<open>None\<close>) when the table has none. A
  store through the pointer it returns updates the table at that key.
\<close>

type_synonym mem_params = "image_id \<rightharpoonup> bl_mem_params_node_t"

definition get_bl_mem_params_node :: "mem_params \<Rightarrow> image_id \<Rightarrow> bl_mem_params_node_t option" where
  "get_bl_mem_params_node tbl i = tbl i"

definition IMAGE_ATTRIB_SKIP_LOADING :: u32 where
  "IMAGE_ATTRIB_SKIP_LOADING = 0x02"

definition EINVAL :: int where
  "EINVAL = 22"

subsection \<open>The Config Store\<close>

text \<open>
  Modelled from the spec: the Config Store (\<open>dtb_infos\<close>, with
  \<open>dyn_cfg_dtb_info_get_index\<close> and the getter behind \<open>FCONF_GET_PROPERTY\<close>) is defined
  in an absent file. It is a table of entries, each with the identifier of a
  configuration blob, its address and its maximum size. The index of an identifier is
  the position of its first entry, or \<open>FCONF_INVALID_IDX\<close> (\<open>None\<close>); the getter gives
  the entry at that index, or \<open>NULL\<close> (\<open>None\<close>).
\<close>

record dyn_cfg_dtb_info_t =
  config_addr :: u32
  config_max_size :: u32
  config_id :: image_id

primrec dyn_cfg_dtb_info_get_index :: "dyn_cfg_dtb_info_t list \<Rightarrow> image_id \<Rightarrow> nat option" where
  "dyn_cfg_dtb_info_get_index [] i = None"
| "dyn_cfg_dtb_info_get_index (e # es) i =
     (if config_id e = i then Some 0
      else map_option Suc (dyn_cfg_dtb_info_get_index es i))"

definition dyn_cfg_dtb_info_getter ::
  "dyn_cfg_dtb_info_t list \<Rightarrow> image_id \<Rightarrow> dyn_cfg_dtb_info_t option" where
  "dyn_cfg_dtb_info_getter dtb_infos i =
     (case dyn_cfg_dtb_info_get_index dtb_infos i of
        None \<Rightarrow> None
      | Some k \<Rightarrow> Some (dtb_infos ! k))"

subsection \<open>What the platform supplies\<close>

text \<open>
  The constants are macros of absent headers and are taken as parameters, with the
  result of \<open>dt_get_ddr_size()\<close>. \<open>mmc_boot\<close> says whether
  \<open>STM32MP_SDMMC || STM32MP_EMMC\<close> holds. The two OP-TEE header routines are defined in
  an absent file and read the loaded image: \<open>optee_header_is_valid\<close> takes the image
  base; \<open>parse_optee_header\<close> takes the entry point record and the image records of
  the pager and of the paged part, and gives its status with the three records as it
  leaves them.
\<close>

record stm32mp_plat =
  STM32MP_DDR_BASE :: u32
  STM32MP_DDR_S_SIZE :: u32
  STM32MP_DDR_SHMEM_SIZE :: u32
  MMC_BLOCK_SIZE :: u32
  dt_get_ddr_size :: u32
  mmc_boot :: bool
  optee_header_is_valid :: "u32 \<Rightarrow> bool"
  parse_optee_header ::
    "entry_point_info_t \<Rightarrow> image_info_t \<Rightarrow> image_info_t \<Rightarrow>
     int \<times> entry_point_info_t \<times> image_info_t \<times> image_info_t"

subsection \<open>The firmware-config pass\<close>

definition image_ids :: "image_id list" where
  "image_ids = [BL32_IMAGE_ID, BL33_IMAGE_ID, HW_CONFIG_ID, TOS_FW_CONFIG_ID]"

text \<open>Lines 358 to 361: base, maximum size and the skip-loading bit of one record.\<close>

definition set_placement :: "dyn_cfg_dtb_info_t \<Rightarrow> bl_mem_params_node_t \<Rightarrow> bl_mem_params_node_t" where
  "set_placement ci n =
     n\<lparr>image_info := (image_info n)
         \<lparr>image_base := config_addr ci,
          image_max_size := config_max_size ci,
          attr := attr (image_info n) AND NOT IMAGE_ATTRIB_SKIP_LOADING\<rparr>\<rparr>"

definition set_pc :: "u32 \<Rightarrow> bl_mem_params_node_t \<Rightarrow> bl_mem_params_node_t" where
  "set_pc a n = n\<lparr>ep_info := (ep_info n)\<lparr>pc := a\<rparr>\<rparr>"

definition set_base_size :: "u32 \<Rightarrow> u32 \<Rightarrow> bl_mem_params_node_t \<Rightarrow> bl_mem_params_node_t" where
  "set_base_size a m n =
     n\<lparr>image_info := (image_info n)\<lparr>image_base := a, image_max_size := m\<rparr>\<rparr>"

text \<open>
  One turn of the loop over \<open>image_ids\<close>, for the identity \<open>i\<close>; \<open>idx\<close> is the index
  of \<open>TOS_FW_CONFIG_ID\<close> taken before the loop. The first component of the result is
  \<open>Some r\<close> when the turn leaves the function with \<open>return r\<close>, and \<open>None\<close> when the
  loop goes on. The pager and paged records are used without a check: a missing one is
  a store through \<open>NULL\<close>.
\<close>

definition fw_config_entry ::
  "stm32mp_plat \<Rightarrow> dyn_cfg_dtb_info_t list \<Rightarrow> nat option \<Rightarrow> mem_params \<Rightarrow> image_id \<Rightarrow>
   fatal + (int option \<times> mem_params)" where
  "fw_config_entry plat dtb_infos idx tbl i =
     (if i = TOS_FW_CONFIG_ID \<and> idx = None then Inr (None, tbl)
      else case get_bl_mem_params_node tbl i of
        None \<Rightarrow> Inl AssertFailed
      | Some n \<Rightarrow>
         (case dyn_cfg_dtb_info_getter dtb_infos i of
            None \<Rightarrow> Inr (None, tbl)
          | Some ci \<Rightarrow>
             (let n1 = set_placement ci n in
              case i of
                BL32_IMAGE_ID \<Rightarrow>
                  (let tbl1 = tbl(i \<mapsto> set_pc (config_addr ci) n1) in
                   case get_bl_mem_params_node tbl1 BL32_EXTRA1_IMAGE_ID of
                     None \<Rightarrow> Inl NullDeref
                   | Some pager \<Rightarrow>
                      (let tbl2 = tbl1(BL32_EXTRA1_IMAGE_ID \<mapsto>
                             set_base_size (config_addr ci) (config_max_size ci) pager) in
                       case get_bl_mem_params_node tbl2 BL32_EXTRA2_IMAGE_ID of
                         None \<Rightarrow> Inl NullDeref
                       | Some paged \<Rightarrow>
                          Inr (None, tbl2(BL32_EXTRA2_IMAGE_ID \<mapsto>
                             set_base_size
                               (STM32MP_DDR_BASE plat +
                                (dt_get_ddr_size plat - STM32MP_DDR_S_SIZE plat -
                                 STM32MP_DDR_SHMEM_SIZE plat))
                               (STM32MP_DDR_S_SIZE plat) paged))))
              | BL33_IMAGE_ID \<Rightarrow> Inr (None, tbl(i \<mapsto> set_pc (config_addr ci) n1))
              | HW_CONFIG_ID \<Rightarrow> Inr (None, tbl(i \<mapsto> n1))
              | TOS_FW_CONFIG_ID \<Rightarrow> Inr (None, tbl(i \<mapsto> n1))
              | _ \<Rightarrow> Inr (Some (- EINVAL), tbl(i \<mapsto> n1)))))"

fun fw_config_loop ::
  "stm32mp_plat \<Rightarrow> dyn_cfg_dtb_info_t list \<Rightarrow> nat option \<Rightarrow> mem_params \<Rightarrow> image_id list \<Rightarrow>
   fatal + (int option \<times> mem_params)" where
  "fw_config_loop plat dtb_infos idx tbl [] = Inr (None, tbl)"
| "fw_config_loop plat dtb_infos idx tbl (i # is) =
     (case fw_config_entry plat dtb_infos idx tbl i of
        Inl e \<Rightarrow> Inl e
      | Inr (Some r, tbl') \<Rightarrow> Inr (Some r, tbl')
      | Inr (None, tbl') \<Rightarrow> fw_config_loop plat dtb_infos idx tbl' is)"

subsection \<open>The TrustedOS and normal-world-loader cases\<close>

definition bl32_post_load :: "stm32mp_plat \<Rightarrow> mem_params \<Rightarrow> bl_mem_params_node_t \<Rightarrow> fatal + mem_params" where
  "bl32_post_load plat tbl bl =
     (if optee_header_is_valid plat (image_base (image_info bl)) then
        (let bl1 = set_pc (image_base (image_info bl)) bl in
         case (get_bl_mem_params_node tbl BL32_EXTRA1_IMAGE_ID,
               get_bl_mem_params_node tbl BL32_EXTRA2_IMAGE_ID) of
           (Some pager, Some paged) \<Rightarrow>
             (case parse_optee_header plat (ep_info bl1) (image_info pager) (image_info paged) of
                (err, ep, pager_info, paged_info) \<Rightarrow>
                  if err \<noteq> 0 then Inl Panic
                  else Inr (tbl(BL32_EXTRA1_IMAGE_ID \<mapsto> pager\<lparr>image_info := pager_info\<rparr>,
                                BL32_EXTRA2_IMAGE_ID \<mapsto> paged\<lparr>image_info := paged_info\<rparr>,
                                BL32_IMAGE_ID \<mapsto>
                                  bl1\<lparr>ep_info := ep\<lparr>arg0 := image_base paged_info,
                                                      arg1 := 0, arg2 := 0\<rparr>\<rparr>)))
         | _ \<Rightarrow> Inl AssertFailed)
      else
        (case get_bl_mem_params_node tbl TOS_FW_CONFIG_ID of
           None \<Rightarrow> Inl NullDeref
         | Some tos_fw \<Rightarrow>
            (let bl1 = set_pc (image_base (image_info bl)) bl;
                 bl2 = bl1\<lparr>image_info := (image_info bl1)
                         \<lparr>image_max_size := image_max_size (image_info bl1) +
                                            image_max_size (image_info tos_fw)\<rparr>\<rparr>
             in Inr (tbl(BL32_IMAGE_ID \<mapsto> bl2\<lparr>ep_info := (ep_info bl2)\<lparr>arg0 := 0\<rparr>\<rparr>)))))"

definition bl33_post_load :: "mem_params \<Rightarrow> bl_mem_params_node_t \<Rightarrow> fatal + mem_params" where
  "bl33_post_load tbl bl =
     (case get_bl_mem_params_node tbl BL32_IMAGE_ID of
        None \<Rightarrow> Inl AssertFailed
      | Some bl32 \<Rightarrow>
         Inr (tbl(BL32_IMAGE_ID \<mapsto> bl32\<lparr>ep_info := (ep_info bl32)\<lparr>lr_svc := pc (ep_info bl)\<rparr>\<rparr>)))"

subsection \<open>The cache maintenance request and the whole function\<close>

text \<open>
  Lines 450 to 461: when the image came from an MMC device and was loaded, the range
  behind it is handed to \<open>inv_dcache_range\<close>. The request, base and length, is part of
  the result; the records are not touched.
\<close>

definition mmc_invalidate :: "stm32mp_plat \<Rightarrow> image_id \<Rightarrow> mem_params \<Rightarrow> (u32 \<times> u32) option" where
  "mmc_invalidate plat i tbl =
     (if mmc_boot plat \<and> i \<noteq> FW_CONFIG_ID then
        (case tbl i of
           None \<Rightarrow> None
         | Some n \<Rightarrow>
            if attr (image_info n) AND IMAGE_ATTRIB_SKIP_LOADING = 0
            then Some (image_base (image_info n) + image_size (image_info n),
                       2 * MMC_BLOCK_SIZE plat)
            else None)
      else None)"

text \<open>
  \<open>dtb_infos\<close> is the Config Store as \<open>set_config_info\<close> and \<open>fconf_populate\<close> leave it
  at the start of the firmware-config case. The result is the returned \<open>int\<close>, the table
  and the cache maintenance request, or the way the function stops.
\<close>

definition bl2_plat_handle_post_image_load ::
  "stm32mp_plat \<Rightarrow> dyn_cfg_dtb_info_t list \<Rightarrow> image_id \<Rightarrow> mem_params \<Rightarrow>
   fatal + (int \<times> mem_params \<times> (u32 \<times> u32) option)" where
  "bl2_plat_handle_post_image_load plat dtb_infos i tbl =
     (case get_bl_mem_params_node tbl i of
        None \<Rightarrow> Inl AssertFailed
      | Some bl \<Rightarrow>
         (case i of
            FW_CONFIG_ID \<Rightarrow>
              (case fw_config_loop plat dtb_infos
                      (dyn_cfg_dtb_info_get_index dtb_infos TOS_FW_CONFIG_ID) tbl image_ids of
                 Inl e \<Rightarrow> Inl e
               | Inr (Some r, tbl') \<Rightarrow> Inr (r, tbl', None)
               | Inr (None, tbl') \<Rightarrow> Inr (0, tbl', mmc_invalidate plat i tbl'))
          | BL32_IMAGE_ID \<Rightarrow>
              (case bl32_post_load plat tbl bl of
                 Inl e \<Rightarrow> Inl e
               | Inr tbl' \<Rightarrow> Inr (0, tbl', mmc_invalidate plat i tbl'))
          | BL33_IMAGE_ID \<Rightarrow>
              (case bl33_post_load tbl bl of
                 Inl e \<Rightarrow> Inl e
               | Inr tbl' \<Rightarrow> Inr (0, tbl', mmc_invalidate plat i tbl'))
          | _ \<Rightarrow> Inr (0, tbl, mmc_invalidate plat i tbl)))"

section \<open>Example inputs\<close>

text \<open>
  A blob as QEMU hands it over, without a GIC node: \<open>vmaj\<close> and \<open>vmin\<close> are the two
  version properties and \<open>ns\<close> the processor nodes. The states are those the
  initialization reaches on three processor nodes with a capacity of four and of two.
\<close>

definition sbsa_dt :: "u32 option \<Rightarrow> u32 option \<Rightarrow> cpu_node list \<Rightarrow> fdt" where
  "sbsa_dt vmaj vmin ns =
     \<lparr>open_into_err = 0, check_header_err = 0, root_offset = 0,
      machine_version_major = vmaj, machine_version_minor = vmin,
      intc_offset = - 1,
      intc = \<lparr>intc_reg = False, intc_reg0 = None, intc_reg1 = None,
              its_offset = - 1, its_reg0 = None\<rparr>,
      cpus_offset = 8, cpu_nodes = ns\<rparr>"

definition cpu_at :: "u64 \<Rightarrow> cpu_node" where
  "cpu_at a = \<lparr>reg = Present a, numa_node_id = Absent\<rparr>"

definition dt_three_cpus :: fdt where
  "dt_three_cpus = sbsa_dt (Some 0) (Some 3) [cpu_at 0, cpu_at 1, cpu_at 2]"

definition dt_no_version :: fdt where
  "dt_no_version = sbsa_dt None None [cpu_at 0]"

definition st_three_of_four :: sbsa_state where
  "st_three_of_four =
     \<lparr>platform_version_major = 0, platform_version_minor = 3, gic_its_addr = 0,
      gicd_base = 0, gicr_base = 0, num_cpus = 3,
      cpu = [\<lparr>nodeid = 0, mpidr = 0\<rparr>, \<lparr>nodeid = 0, mpidr = 1\<rparr>,
             \<lparr>nodeid = 0, mpidr = 2\<rparr>, \<lparr>nodeid = 0, mpidr = 0\<rparr>],
      overrun = []\<rparr>"

definition st_three_of_two :: sbsa_state where
  "st_three_of_two =
     \<lparr>platform_version_major = 0, platform_version_minor = 3, gic_its_addr = 0,
      gicd_base = 0, gicr_base = 0, num_cpus = 3,
      cpu = [\<lparr>nodeid = 0, mpidr = 0\<rparr>, \<lparr>nodeid = 0, mpidr = 1\<rparr>],
      overrun = [(2, \<lparr>nodeid = 0, mpidr = 2\<rparr>)]\<rparr>"

text \<open>
  A platform with 512 MiB of DDR at 0xC0000000, whose header routines answer \<open>valid\<close>
  and \<open>err\<close>; a descriptor table with compiled defaults (every image but the firmware
  config marked skip-loading); a Config Store with entries for the firmware config, the
  TrustedOS (at address \<open>a\<close>), the normal-world loader and the hardware config, and
  none for the TrustedOS config; and the table the firmware-config pass makes of them.
\<close>

definition plat_ex :: "bool \<Rightarrow> int \<Rightarrow> stm32mp_plat" where
  "plat_ex valid err =
     \<lparr>STM32MP_DDR_BASE = 0xC0000000, STM32MP_DDR_S_SIZE = 0x01E00000,
      STM32MP_DDR_SHMEM_SIZE = 0x00200000, MMC_BLOCK_SIZE = 512,
      dt_get_ddr_size = 0x20000000, mmc_boot = True,
      optee_header_is_valid = (\<lambda>a. valid),
      parse_optee_header = (\<lambda>ep pager paged. (err, ep, pager, paged))\<rparr>"

definition node_ex :: "u32 \<Rightarrow> u32 \<Rightarrow> u32 \<Rightarrow> u32 \<Rightarrow> bl_mem_params_node_t" where
  "node_ex a b m p =
     \<lparr>image_info = \<lparr>attr = a, image_base = b, image_size = 0, image_max_size = m\<rparr>,
      ep_info = \<lparr>pc = p, spsr = 0, lr_svc = 0, arg0 = 0, arg1 = 0, arg2 = 0, arg3 = 0\<rparr>\<rparr>"

definition tbl_ex :: mem_params where
  "tbl_ex =
     [FW_CONFIG_ID \<mapsto> node_ex 0 0x2FFC0000 0x2000 0,
      BL32_IMAGE_ID \<mapsto> node_ex 2 0 0 0,
      BL32_EXTRA1_IMAGE_ID \<mapsto> node_ex 2 0 0 0,
      BL32_EXTRA2_IMAGE_ID \<mapsto> node_ex 2 0 0 0,
      BL33_IMAGE_ID \<mapsto> node_ex 2 0 0 0,
      HW_CONFIG_ID \<mapsto> node_ex 2 0 0 0,
      TOS_FW_CONFIG_ID \<mapsto> node_ex 2 0 0x1000 0]"

definition cs_ex :: "u32 \<Rightarrow> dyn_cfg_dtb_info_t list" where
  "cs_ex a =
     [\<lparr>config_addr = 0x2FFC0000, config_max_size = 0x2000, config_id = FW_CONFIG_ID\<rparr>,
      \<lparr>config_addr = a, config_max_size = 0x20000, config_id = BL32_IMAGE_ID\<rparr>,
      \<lparr>config_addr = 0xC0100000, config_max_size = 0x01000000, config_id = BL33_IMAGE_ID\<rparr>,
      \<lparr>config_addr = 0xC0000000, config_max_size = 0x40000, config_id = HW_CONFIG_ID\<rparr>]"

definition tbl_resolved :: "u32 \<Rightarrow> mem_params" where
  "tbl_resolved a =
     tbl_ex(BL32_IMAGE_ID \<mapsto> node_ex 0 a 0x20000 a,
            BL32_EXTRA1_IMAGE_ID \<mapsto> node_ex 2 a 0x20000 0,
            BL32_EXTRA2_IMAGE_ID \<mapsto> node_ex 2 0xDE000000 0x01E00000 0,
            BL33_IMAGE_ID \<mapsto> node_ex 0 0xC0100000 0x01000000 0xC0100000,
            HW_CONFIG_ID \<mapsto> node_ex 0 0xC0000000 0x40000 0)"

section \<open>The traversal order of the processor nodes, as the spec words it\<close>

text \<open>
  This definition follows the words of the spec, not the loop: one pair per sub-node in
  traversal order, the affinity identifier read from the node's first register entry,
  the NUMA node identifier inherited from the previous node when the property is
  missing. \<open>k\<close> and \<open>m\<close> are the values inherited by the first node.
\<close>

fun dt_cpu_entries :: "u32 \<Rightarrow> u64 \<Rightarrow> cpu_node list \<Rightarrow> cpu_data list" where
  "dt_cpu_entries k m [] = []"
| "dt_cpu_entries k m (n # ns) =
     \<lparr>nodeid = read_numa n k, mpidr = ucast (read_reg n m)\<rparr>
       # dt_cpu_entries (read_numa n k) (read_reg n m) ns"

section \<open>Properties of the SiP service\<close>

lemma store_cpu_length: "length (cpu (store_cpu pcc s i d)) = length (cpu s)"
  by (simp add: store_cpu_def)

lemma cpu_loop_count: "fst (cpu_loop pcc ns c k m s) = c + length ns"
  by (induction ns arbitrary: c k m s) simp_all

lemma cpu_loop_length: "length (cpu (snd (cpu_loop pcc ns c k m s))) = length (cpu s)"
  by (induction ns arbitrary: c k m s) (simp_all add: store_cpu_length)

lemma cpu_loop_below: "j < c \<Longrightarrow> cpu (snd (cpu_loop pcc ns c k m s)) ! j = cpu s ! j"
  by (induction ns arbitrary: c k m s) (simp_all add: store_cpu_def)

lemma cpu_loop_above:
  "c + length ns \<le> j \<Longrightarrow> cpu (snd (cpu_loop pcc ns c k m s)) ! j = cpu s ! j"
  by (induction ns arbitrary: c k m s) (simp_all add: store_cpu_def)

lemma cpu_loop_nth:
  "i < length ns \<Longrightarrow> c + i < pcc \<Longrightarrow> c + i < length (cpu s) \<Longrightarrow>
   cpu (snd (cpu_loop pcc ns c k m s)) ! (c + i) = dt_cpu_entries k m ns ! i"
proof (induction ns arbitrary: c k m s i)
  case Nil
  then show ?case by simp
next
  case (Cons n ns)
  show ?case
  proof (cases i)
    case 0
    with Cons.prems show ?thesis
      by (simp add: cpu_loop_below store_cpu_def)
  next
    case (Suc i')
    with Cons.prems have "cpu (snd (cpu_loop pcc ns (Suc c) (read_numa n k) (read_reg n m)
        (store_cpu pcc s c \<lparr>nodeid = read_numa n k, mpidr = ucast (read_reg n m)\<rparr>))) ! (Suc c + i')
      = dt_cpu_entries (read_numa n k) (read_reg n m) ns ! i'"
      by (intro Cons.IH) (simp_all add: store_cpu_length)
    with Suc show ?thesis by simp
  qed
qed

lemma fid_simps:
  "SIP_SVC_GET_CPU_NODE \<noteq> SIP_SVC_VERSION"
  "SIP_SVC_GET_CPU_NODE \<noteq> SIP_SVC_GET_GIC"
  "SIP_SVC_GET_CPU_NODE \<noteq> SIP_SVC_GET_GIC_ITS"
  "SIP_SVC_GET_CPU_NODE \<noteq> SIP_SVC_GET_CPU_COUNT"
  by (simp_all add: SIP_SVC_GET_CPU_NODE_def SIP_SVC_VERSION_def SIP_SVC_GET_GIC_def
      SIP_SVC_GET_GIC_ITS_def SIP_SVC_GET_CPU_COUNT_def SIP_FUNCTION_ID_def SIP_FUNCTION_def
      SMC64_FUNCTION_def SMC_FASTCALL_def)

lemma handler_cpu_node:
  "is_caller_non_secure flags \<noteq> 0 \<Longrightarrow>
   sbsa_sip_smc_handler pcc s SIP_SVC_GET_CPU_NODE x1 x2 x3 x4 flags =
     (if unat x1 < pcc then
        [0, ucast (nodeid (cpu s ! unat x1)), ucast (mpidr (cpu s ! unat x1))]
      else [SMC_ARCH_CALL_INVAL_PARAM])"
  by (simp add: sbsa_sip_smc_handler_def fid_simps)

lemma config_cpu: "cpu (read_platform_config_from_dt dtb s) = cpu s"
  by (simp add: read_platform_config_from_dt_def sbsa_set_gic_bases_def Let_def
      split: option.splits)

lemma version_cpu: "read_platform_version nw dtb s = Inr s1 \<Longrightarrow> cpu s1 = cpu s"
  by (auto simp: read_platform_version_def split: if_splits sum.splits)

lemma sip_svc_init_Inr:
  assumes "sip_svc_init pcc nw m0 dtb s0 = Inr s"
  shows "s = s0 \<or> (\<exists>s1. cpu s1 = cpu s0 \<and>
           s = (snd (cpu_loop pcc (cpu_nodes dtb) 0 0 m0 s1))
                 \<lparr>num_cpus := of_nat (length (cpu_nodes dtb))\<rparr>)"
proof (cases "open_into_err dtb < 0 \<or> check_header_err dtb < 0")
  case True
  with assms show ?thesis by (auto simp: sip_svc_init_def split: if_splits)
next
  case False
  with assms obtain s1 where v: "read_platform_version nw dtb s0 = Inr s1"
    and r: "read_cpuinfo_from_dt pcc m0 dtb (read_platform_config_from_dt dtb s1) = Inr s"
    by (auto simp: sip_svc_init_def split: sum.splits)
  let ?s2 = "read_platform_config_from_dt dtb s1"
  have c: "cpu ?s2 = cpu s0" using v by (simp add: config_cpu version_cpu)
  from r have "s = (snd (cpu_loop pcc (cpu_nodes dtb) 0 0 m0 ?s2))
                 \<lparr>num_cpus := of_nat (fst (cpu_loop pcc (cpu_nodes dtb) 0 0 m0 ?s2))\<rparr>"
    by (auto simp: read_cpuinfo_from_dt_def split: if_splits prod.splits)
  then have "s = (snd (cpu_loop pcc (cpu_nodes dtb) 0 0 m0 ?s2))
                 \<lparr>num_cpus := of_nat (length (cpu_nodes dtb))\<rparr>"
    by (simp add: cpu_loop_count)
  with c show ?thesis by blast
qed

lemma unat_of_nat_le: "unat (of_nat n :: u32) \<le> n"
  by (simp add: unat_of_nat)

text \<open>
  Claim C4. A cpu-node query from the non-secure world, after initialization from the
  boot state: with the index below \<open>PLATFORM_CORE_COUNT\<close> the result is the three
  words (0, nodeid, mpidr) of the slot at that index, and when the index is also below
  \<open>num_cpus\<close> that slot holds the pair the traversal produced at that position; with
  the index at or above \<open>PLATFORM_CORE_COUNT\<close> the result is the single status
  \<open>SMC_ARCH_CALL_INVAL_PARAM\<close>, which differs from \<open>SMC_UNK\<close>.
\<close>

theorem cpu_node_query:
  assumes init: "sip_svc_init pcc nw m0 dtb (boot_state pcc gd gr) = Inr s"
    and ns: "is_caller_non_secure flags \<noteq> 0"
  shows "(unat x1 < pcc \<longrightarrow>
            sbsa_sip_smc_handler pcc s SIP_SVC_GET_CPU_NODE x1 x2 x3 x4 flags =
              [0, ucast (nodeid (cpu s ! unat x1)), ucast (mpidr (cpu s ! unat x1))] \<and>
            (unat x1 < unat (num_cpus s) \<longrightarrow>
               cpu s ! unat x1 = dt_cpu_entries 0 m0 (cpu_nodes dtb) ! unat x1)) \<and>
         (pcc \<le> unat x1 \<longrightarrow>
            sbsa_sip_smc_handler pcc s SIP_SVC_GET_CPU_NODE x1 x2 x3 x4 flags =
              [SMC_ARCH_CALL_INVAL_PARAM]) \<and>
         SMC_ARCH_CALL_INVAL_PARAM \<noteq> SMC_UNK"
proof -
  have tr: "cpu s ! unat x1 = dt_cpu_entries 0 m0 (cpu_nodes dtb) ! unat x1"
    if lt: "unat x1 < pcc" and cnt: "unat x1 < unat (num_cpus s)"
  proof -
    from sip_svc_init_Inr [OF init] show ?thesis
    proof
      assume "s = boot_state pcc gd gr"
      with cnt show ?thesis by (simp add: boot_state_def)
    next
      assume "\<exists>s1. cpu s1 = cpu (boot_state pcc gd gr) \<and>
           s = (snd (cpu_loop pcc (cpu_nodes dtb) 0 0 m0 s1))
                 \<lparr>num_cpus := of_nat (length (cpu_nodes dtb))\<rparr>"
      then obtain s1 where c: "cpu s1 = cpu (boot_state pcc gd gr)"
        and s: "s = (snd (cpu_loop pcc (cpu_nodes dtb) 0 0 m0 s1))
                 \<lparr>num_cpus := of_nat (length (cpu_nodes dtb))\<rparr>" by blast
      from cnt s have "unat x1 < unat (of_nat (length (cpu_nodes dtb)) :: u32)" by simp
      with unat_of_nat_le [of "length (cpu_nodes dtb)"]
      have i: "unat x1 < length (cpu_nodes dtb)" by linarith
      have "length (cpu s1) = pcc" using c by (simp add: boot_state_def)
      with lt i cpu_loop_nth [of "unat x1" "cpu_nodes dtb" 0 pcc s1 0 m0]
      show ?thesis by (simp add: s)
    qed
  qed
  have d: "SMC_ARCH_CALL_INVAL_PARAM \<noteq> SMC_UNK"
    by (simp add: SMC_ARCH_CALL_INVAL_PARAM_def SMC_UNK_def)
  from tr d show ?thesis by (simp add: handler_cpu_node [OF ns])
qed

lemma init_three_of_four:
  "sip_svc_init 4 None 0 dt_three_cpus (boot_state 4 0 0) = Inr st_three_of_four"
  by code_simp

lemma ns_flag_1: "is_caller_non_secure 1 \<noteq> 0"
  by (simp add: is_caller_non_secure_def SMC_FROM_NON_SECURE_def)

theorem cpu_node_query_witness:
  "sip_svc_init 4 None 0 dt_three_cpus (boot_state 4 0 0) = Inr st_three_of_four \<and>
   is_caller_non_secure 1 \<noteq> 0 \<and>
   sbsa_sip_smc_handler 4 st_three_of_four SIP_SVC_GET_CPU_NODE 2 0 0 0 1 = [0, 0, 2] \<and>
   cpu st_three_of_four ! 2 = dt_cpu_entries 0 0 (cpu_nodes dt_three_cpus) ! 2 \<and>
   sbsa_sip_smc_handler 4 st_three_of_four SIP_SVC_GET_CPU_NODE 4 0 0 0 1 =
     [SMC_ARCH_CALL_INVAL_PARAM]"
proof -
  have a: "cpu st_three_of_four ! 2 = \<lparr>nodeid = 0, mpidr = 2\<rparr>"
    by (simp add: st_three_of_four_def)
  have b: "unat (num_cpus st_three_of_four) = 3"
    by (simp add: st_three_of_four_def)
  from cpu_node_query [OF init_three_of_four ns_flag_1, of 2 0 0 0]
    cpu_node_query [OF init_three_of_four ns_flag_1, of 4 0 0 0]
  show ?thesis
    by (simp add: a b init_three_of_four ns_flag_1)
qed

text \<open>
  Claim C2. A request whose flags do not show the non-secure world gets the one word
  \<open>SMC_UNK\<close>, whatever the function identifier and the arguments; this is the result
  a non-secure caller gets for an identifier outside the five that are served.
\<close>

theorem wrong_world_rejected:
  assumes "is_caller_non_secure flags = 0"
  shows "sbsa_sip_smc_handler pcc s smc_fid x1 x2 x3 x4 flags = [SMC_UNK] \<and>
         (is_caller_non_secure flags' \<noteq> 0 \<and>
          fid' \<notin> {SIP_SVC_VERSION, SIP_SVC_GET_GIC, SIP_SVC_GET_GIC_ITS,
                   SIP_SVC_GET_CPU_COUNT, SIP_SVC_GET_CPU_NODE} \<longrightarrow>
          sbsa_sip_smc_handler pcc s' fid' y1 y2 y3 y4 flags' =
          sbsa_sip_smc_handler pcc s smc_fid x1 x2 x3 x4 flags)"
  using assms by (simp add: sbsa_sip_smc_handler_def)

theorem wrong_world_rejected_witness:
  "is_caller_non_secure 0 = 0 \<and>
   sbsa_sip_smc_handler 4 st_three_of_four SIP_SVC_GET_CPU_NODE 1 0 0 0 0 = [SMC_UNK] \<and>
   sbsa_sip_smc_handler 4 st_three_of_four (SIP_FUNCTION_ID 2) 0 0 0 0 1 =
   sbsa_sip_smc_handler 4 st_three_of_four SIP_SVC_GET_CPU_NODE 1 0 0 0 0"
proof -
  have s: "is_caller_non_secure 0 = 0"
    by (simp add: is_caller_non_secure_def)
  have u: "SIP_FUNCTION_ID 2 \<notin> {SIP_SVC_VERSION, SIP_SVC_GET_GIC, SIP_SVC_GET_GIC_ITS,
                   SIP_SVC_GET_CPU_COUNT, SIP_SVC_GET_CPU_NODE}"
    by (simp add: SIP_SVC_GET_CPU_NODE_def SIP_SVC_VERSION_def SIP_SVC_GET_GIC_def
      SIP_SVC_GET_GIC_ITS_def SIP_SVC_GET_CPU_COUNT_def SIP_FUNCTION_ID_def SIP_FUNCTION_def
      SMC64_FUNCTION_def SMC_FASTCALL_def)
  from wrong_world_rejected [OF s, where flags' = 1 and fid' = "SIP_FUNCTION_ID 2"
      and pcc = 4 and s = st_three_of_four and s' = st_three_of_four
      and smc_fid = SIP_SVC_GET_CPU_NODE and ?x1.0 = 1 and ?x2.0 = 0 and ?x3.0 = 0
      and ?x4.0 = 0 and ?y1.0 = 0 and ?y2.0 = 0 and ?y3.0 = 0 and ?y4.0 = 0] s u ns_flag_1
  show ?thesis by simp
qed

text \<open>
  Claim C5. The loop of \<open>read_cpuinfo_from_dt\<close> has no bound: on a blob with three
  processor nodes and a capacity of two, \<open>num_cpus\<close> ends at 3 and the third pair is
  stored behind the end of the array.
\<close>

theorem cpu_count_exceeds_capacity:
  "sip_svc_init 2 None 0 dt_three_cpus (boot_state 2 0 0) = Inr st_three_of_two \<and>
   2 < unat (num_cpus st_three_of_two) \<and>
   overrun st_three_of_two = [(2, \<lparr>nodeid = 0, mpidr = 2\<rparr>)]"
proof -
  have "sip_svc_init 2 None 0 dt_three_cpus (boot_state 2 0 0) = Inr st_three_of_two"
    by code_simp
  then show ?thesis by (simp add: st_three_of_two_def)
qed

text \<open>
  Claim C6, as stated, fails: with a capacity of four and three processor nodes,
  \<open>num_cpus\<close> is 3 and a query for index 3 returns the three words of the slot that
  was never written.
\<close>

theorem unpopulated_slot_reported:
  "sip_svc_init 4 None 0 dt_three_cpus (boot_state 4 0 0) = Inr st_three_of_four \<and>
   unat (num_cpus st_three_of_four) \<le> unat (3 :: u64) \<and>
   sbsa_sip_smc_handler 4 st_three_of_four SIP_SVC_GET_CPU_NODE 3 0 0 0 1 = [0, 0, 0]"
proof -
  have "sbsa_sip_smc_handler 4 st_three_of_four SIP_SVC_GET_CPU_NODE 3 0 0 0 1 = [0, 0, 0]"
    by (simp add: handler_cpu_node [OF ns_flag_1] st_three_of_four_def)
  then show ?thesis by (simp add: init_three_of_four) (simp add: st_three_of_four_def)
qed

text \<open>
  Claim C6, amended. The handler compares the index with \<open>PLATFORM_CORE_COUNT\<close>, not
  with \<open>num_cpus\<close>: an index at or above \<open>PLATFORM_CORE_COUNT\<close> gets the single status
  \<open>SMC_ARCH_CALL_INVAL_PARAM\<close>; an index below it but at or past the number of
  traversed nodes gets the words (0, 0, 0) of the zero-initialized slot.
\<close>

theorem cpu_node_query_past_nodes:
  assumes init: "sip_svc_init pcc nw m0 dtb (boot_state pcc gd gr) = Inr s"
    and ns: "is_caller_non_secure flags \<noteq> 0"
  shows "(pcc \<le> unat x1 \<longrightarrow>
            sbsa_sip_smc_handler pcc s SIP_SVC_GET_CPU_NODE x1 x2 x3 x4 flags =
              [SMC_ARCH_CALL_INVAL_PARAM]) \<and>
         (length (cpu_nodes dtb) \<le> unat x1 \<and> unat x1 < pcc \<longrightarrow>
            sbsa_sip_smc_handler pcc s SIP_SVC_GET_CPU_NODE x1 x2 x3 x4 flags = [0, 0, 0])"
proof -
  have z: "cpu s ! unat x1 = \<lparr>nodeid = 0, mpidr = 0\<rparr>"
    if "length (cpu_nodes dtb) \<le> unat x1" "unat x1 < pcc"
    using sip_svc_init_Inr [OF init] that
    by (auto simp: cpu_loop_above boot_state_def)
  then show ?thesis by (auto simp: handler_cpu_node [OF ns])
qed

theorem cpu_node_query_past_nodes_witness:
  "sip_svc_init 4 None 0 dt_three_cpus (boot_state 4 0 0) = Inr st_three_of_four \<and>
   is_caller_non_secure 1 \<noteq> 0 \<and>
   sbsa_sip_smc_handler 4 st_three_of_four SIP_SVC_GET_CPU_NODE 5 0 0 0 1 =
     [SMC_ARCH_CALL_INVAL_PARAM] \<and>
   length (cpu_nodes dt_three_cpus) \<le> unat (3 :: u64) \<and> unat (3 :: u64) < 4 \<and>
   sbsa_sip_smc_handler 4 st_three_of_four SIP_SVC_GET_CPU_NODE 3 0 0 0 1 = [0, 0, 0]"
proof -
  have l: "length (cpu_nodes dt_three_cpus) = 3"
    by (simp add: dt_three_cpus_def sbsa_dt_def)
  from cpu_node_query_past_nodes [OF init_three_of_four ns_flag_1, of 5 0 0 0]
    cpu_node_query_past_nodes [OF init_three_of_four ns_flag_1, of 3 0 0 0]
  show ?thesis by (simp add: l init_three_of_four ns_flag_1)
qed

text \<open>
  Claim C9. On a blob with a root node and no version properties,
  \<open>read_platform_version\<close> loads through the \<open>NULL\<close> that \<open>fdt_getprop\<close> returns: the
  initialization stops when the access faults, and otherwise both version fields take
  the word found at address 0.
\<close>

theorem missing_version_null_load:
  "read_platform_version None dt_no_version s = Inl NullDeref \<and>
   read_platform_version (Some w) dt_no_version s =
     Inr (s\<lparr>platform_version_major := w, platform_version_minor := w\<rparr>) \<and>
   sip_svc_init pcc None m0 dt_no_version s = Inl NullDeref"
  by (simp add: read_platform_version_def fdt32_ld_def sip_svc_init_def dt_no_version_def
      sbsa_dt_def)

section \<open>Properties of the post-image-load resolver\<close>

lemma image_ids_mem:
  "i \<in> set image_ids \<longleftrightarrow>
     i = BL32_IMAGE_ID \<or> i = BL33_IMAGE_ID \<or> i = HW_CONFIG_ID \<or> i = TOS_FW_CONFIG_ID"
  by (auto simp: image_ids_def)

lemma getter_None: "dyn_cfg_dtb_info_get_index cs i = None \<Longrightarrow> dyn_cfg_dtb_info_getter cs i = None"
  by (simp add: dyn_cfg_dtb_info_getter_def)

lemma entry_no_return:
  "i \<in> set image_ids \<Longrightarrow> fw_config_entry plat cs idx t i = Inr (ro, t') \<Longrightarrow> ro = None"
  by (auto simp: image_ids_mem fw_config_entry_def Let_def
      split: if_splits option.splits)

lemma entry_frame:
  "fw_config_entry plat cs idx t i = Inr (ro, t') \<Longrightarrow> j \<noteq> i \<Longrightarrow>
   (i = BL32_IMAGE_ID \<longrightarrow> j \<noteq> BL32_EXTRA1_IMAGE_ID \<and> j \<noteq> BL32_EXTRA2_IMAGE_ID) \<Longrightarrow>
   t' j = t j"
  by (cases i) (auto simp: fw_config_entry_def Let_def get_bl_mem_params_node_def
      split: if_splits option.splits)

lemma entry_effect:
  assumes "i \<in> set image_ids"
    and "idx = dyn_cfg_dtb_info_get_index cs TOS_FW_CONFIG_ID"
    and "fw_config_entry plat cs idx t i = Inr (ro, t')"
  shows "case dyn_cfg_dtb_info_getter cs i of
           None \<Rightarrow> t' i = t i
         | Some ci \<Rightarrow> \<exists>n n'. t i = Some n \<and> t' i = Some n' \<and>
                         image_info n' = image_info (set_placement ci n)"
  using assms
  by (auto simp: image_ids_mem fw_config_entry_def Let_def get_bl_mem_params_node_def
      getter_None set_pc_def
      split: if_splits option.splits)

lemma entry_paged:
  assumes "fw_config_entry plat cs idx t BL32_IMAGE_ID = Inr (ro, t')"
    and "dyn_cfg_dtb_info_getter cs BL32_IMAGE_ID = Some ci"
  shows "\<exists>p. t' BL32_EXTRA2_IMAGE_ID = Some p \<and>
           image_base (image_info p) =
             STM32MP_DDR_BASE plat + dt_get_ddr_size plat - STM32MP_DDR_S_SIZE plat -
             STM32MP_DDR_SHMEM_SIZE plat \<and>
           image_max_size (image_info p) = STM32MP_DDR_S_SIZE plat"
  using assms
  by (auto simp: fw_config_entry_def Let_def get_bl_mem_params_node_def set_base_size_def
      split: if_splits option.splits)

lemma loop_frame:
  "fw_config_loop plat cs idx t ids = Inr (ro, t') \<Longrightarrow> j \<notin> set ids \<Longrightarrow>
   (BL32_IMAGE_ID \<in> set ids \<longrightarrow> j \<noteq> BL32_EXTRA1_IMAGE_ID \<and> j \<noteq> BL32_EXTRA2_IMAGE_ID) \<Longrightarrow>
   t' j = t j"
proof (induction ids arbitrary: t)
  case Nil
  then show ?case by simp
next
  case (Cons a ids)
  from Cons.prems(1) obtain r1 t1 where
    e: "fw_config_entry plat cs idx t a = Inr (r1, t1)"
    by (auto split: sum.splits)
  from Cons.prems have f: "t1 j = t j"
    by (intro entry_frame [OF e]) auto
  show ?case
  proof (cases r1)
    case None
    with e Cons.prems(1) have "fw_config_loop plat cs idx t1 ids = Inr (ro, t')" by simp
    with Cons.IH [of t1] Cons.prems f show ?thesis by simp
  next
    case (Some r)
    with e Cons.prems(1) have "t' = t1" by simp
    with f show ?thesis by simp
  qed
qed

lemma loop_effect:
  assumes "idx = dyn_cfg_dtb_info_get_index cs TOS_FW_CONFIG_ID"
  shows "distinct ids \<Longrightarrow> set ids \<subseteq> set image_ids \<Longrightarrow>
     fw_config_loop plat cs idx t ids = Inr (ro, t') \<Longrightarrow> i \<in> set ids \<Longrightarrow>
     (case dyn_cfg_dtb_info_getter cs i of
           None \<Rightarrow> t' i = t i
         | Some ci \<Rightarrow> \<exists>n n'. t i = Some n \<and> t' i = Some n' \<and>
                         image_info n' = image_info (set_placement ci n))"
proof (induction ids arbitrary: t)
  case Nil
  then show ?case by simp
next
  case (Cons a ids)
  from Cons.prems(3) obtain r1 t1 where
    e: "fw_config_entry plat cs idx t a = Inr (r1, t1)"
    by (auto split: sum.splits)
  from Cons.prems(2) have a: "a \<in> set image_ids" by simp
  from entry_no_return [OF a e] have r1: "r1 = None" .
  with e Cons.prems(3) have l: "fw_config_loop plat cs idx t1 ids = Inr (ro, t')" by simp
  from Cons.prems(2,4) have i: "i \<in> set image_ids" by auto
  then have ni: "i \<noteq> BL32_EXTRA1_IMAGE_ID \<and> i \<noteq> BL32_EXTRA2_IMAGE_ID"
    by (auto simp: image_ids_mem)
  show ?case
  proof (cases "i = a")
    case True
    with Cons.prems(1) have "i \<notin> set ids" by simp
    with loop_frame [OF l, of i] ni have "t' i = t1 i" by simp
    with entry_effect [OF a assms e] True show ?thesis
      by (auto split: option.splits)
  next
    case False
    with Cons.prems(4) have m: "i \<in> set ids" by simp
    from False ni entry_frame [OF e, of i] have "t1 i = t i" by simp
    with Cons.IH [OF _ _ l m] Cons.prems(1,2) show ?thesis
      by (auto split: option.splits)
  qed
qed

lemma post_fw_config:
  assumes "bl2_plat_handle_post_image_load plat cs FW_CONFIG_ID tbl = Inr (r, tbl', req)"
  shows "\<exists>ro. fw_config_loop plat cs (dyn_cfg_dtb_info_get_index cs TOS_FW_CONFIG_ID) tbl image_ids
           = Inr (ro, tbl')"
  using assms
  by (auto simp: bl2_plat_handle_post_image_load_def split: option.splits sum.splits)

lemma getter_ex:
  "dyn_cfg_dtb_info_getter (cs_ex a) BL32_IMAGE_ID =
     Some \<lparr>config_addr = a, config_max_size = 0x20000, config_id = BL32_IMAGE_ID\<rparr>"
  "dyn_cfg_dtb_info_getter (cs_ex a) BL33_IMAGE_ID =
     Some \<lparr>config_addr = 0xC0100000, config_max_size = 0x01000000, config_id = BL33_IMAGE_ID\<rparr>"
  "dyn_cfg_dtb_info_getter (cs_ex a) HW_CONFIG_ID =
     Some \<lparr>config_addr = 0xC0000000, config_max_size = 0x40000, config_id = HW_CONFIG_ID\<rparr>"
  "dyn_cfg_dtb_info_getter (cs_ex a) TOS_FW_CONFIG_ID = None"
  "dyn_cfg_dtb_info_get_index (cs_ex a) TOS_FW_CONFIG_ID = None"
  by (simp_all add: dyn_cfg_dtb_info_getter_def cs_ex_def)

lemma post_fw_config_ex:
  "bl2_plat_handle_post_image_load (plat_ex v e) (cs_ex a) FW_CONFIG_ID tbl_ex =
     Inr (0, tbl_resolved a, None)"
  by (simp add: bl2_plat_handle_post_image_load_def get_bl_mem_params_node_def tbl_ex_def
      image_ids_def fw_config_entry_def getter_ex set_placement_def set_pc_def set_base_size_def
      node_ex_def plat_ex_def tbl_resolved_def IMAGE_ATTRIB_SKIP_LOADING_def mmc_invalidate_def)

text \<open>
  Claim C3. After the firmware-config pass, for each identity of \<open>image_ids\<close>: when the
  Config Store has an entry for it, its record has the entry's address as base, the
  entry's maximum size, and the skip-loading bit cleared (the other attribute bits
  kept); when the store has none, its record is as it was.
\<close>

theorem fw_config_resolution:
  assumes "bl2_plat_handle_post_image_load plat cs FW_CONFIG_ID tbl = Inr (r, tbl', req)"
    and "i \<in> set image_ids"
  shows "case dyn_cfg_dtb_info_getter cs i of
           None \<Rightarrow> tbl' i = tbl i
         | Some ci \<Rightarrow>
             \<exists>n n'. tbl i = Some n \<and> tbl' i = Some n' \<and>
               image_base (image_info n') = config_addr ci \<and>
               image_max_size (image_info n') = config_max_size ci \<and>
               attr (image_info n') = attr (image_info n) AND NOT IMAGE_ATTRIB_SKIP_LOADING \<and>
               attr (image_info n') AND IMAGE_ATTRIB_SKIP_LOADING = 0"
proof -
  from post_fw_config [OF assms(1)] obtain ro where
    l: "fw_config_loop plat cs (dyn_cfg_dtb_info_get_index cs TOS_FW_CONFIG_ID) tbl image_ids
          = Inr (ro, tbl')" ..
  have d: "distinct image_ids" by (simp add: image_ids_def)
  have m: "(x AND NOT k) AND k = 0" for x k :: u32
    by (simp add: and.assoc)
  from loop_effect [OF refl d subset_refl l assms(2)] show ?thesis
    by (auto simp: set_placement_def m split: option.splits)
qed

theorem fw_config_resolution_witness:
  "bl2_plat_handle_post_image_load (plat_ex False 0) (cs_ex 0xDE000000) FW_CONFIG_ID tbl_ex =
     Inr (0, tbl_resolved 0xDE000000, None) \<and>
   BL32_IMAGE_ID \<in> set image_ids \<and> TOS_FW_CONFIG_ID \<in> set image_ids \<and>
   (case dyn_cfg_dtb_info_getter (cs_ex 0xDE000000) BL32_IMAGE_ID of
      None \<Rightarrow> tbl_resolved 0xDE000000 BL32_IMAGE_ID = tbl_ex BL32_IMAGE_ID
    | Some ci \<Rightarrow>
        \<exists>n n'. tbl_ex BL32_IMAGE_ID = Some n \<and>
          tbl_resolved 0xDE000000 BL32_IMAGE_ID = Some n' \<and>
          image_base (image_info n') = config_addr ci \<and>
          image_max_size (image_info n') = config_max_size ci \<and>
          attr (image_info n') = attr (image_info n) AND NOT IMAGE_ATTRIB_SKIP_LOADING \<and>
          attr (image_info n') AND IMAGE_ATTRIB_SKIP_LOADING = 0) \<and>
   dyn_cfg_dtb_info_getter (cs_ex 0xDE000000) TOS_FW_CONFIG_ID = None \<and>
   tbl_resolved 0xDE000000 TOS_FW_CONFIG_ID = tbl_ex TOS_FW_CONFIG_ID"
proof -
  have a: "BL32_IMAGE_ID \<in> set image_ids" and b: "TOS_FW_CONFIG_ID \<in> set image_ids"
    by (simp_all add: image_ids_def)
  note run = post_fw_config_ex [of False 0 "0xDE000000"]
  from fw_config_resolution [OF run a] fw_config_resolution [OF run b]
  show ?thesis
    by (simp add: post_fw_config_ex a b getter_ex)
qed

text \<open>
  Claim C1. When the Config Store has an entry for the TrustedOS, the firmware-config
  pass leaves the paged part (\<open>BL32_EXTRA2_IMAGE_ID\<close>) at base
  \<open>STM32MP_DDR_BASE + ddr_size - STM32MP_DDR_S_SIZE - STM32MP_DDR_SHMEM_SIZE\<close> (in
  32-bit arithmetic) with maximum size \<open>STM32MP_DDR_S_SIZE\<close>; a second pass on the
  same platform with any other store and table gives the same base, whatever address
  its TrustedOS entry holds.
\<close>

theorem paged_overlay_placement:
  assumes "bl2_plat_handle_post_image_load plat cs FW_CONFIG_ID tbl = Inr (r, tbl', req)"
    and "dyn_cfg_dtb_info_getter cs BL32_IMAGE_ID = Some ci"
    and "bl2_plat_handle_post_image_load plat cs2 FW_CONFIG_ID tbl2 = Inr (r2, tbl2', req2)"
    and "dyn_cfg_dtb_info_getter cs2 BL32_IMAGE_ID = Some ci2"
  shows "\<exists>p p2. tbl' BL32_EXTRA2_IMAGE_ID = Some p \<and> tbl2' BL32_EXTRA2_IMAGE_ID = Some p2 \<and>
           image_base (image_info p) =
             STM32MP_DDR_BASE plat + dt_get_ddr_size plat - STM32MP_DDR_S_SIZE plat -
             STM32MP_DDR_SHMEM_SIZE plat \<and>
           image_max_size (image_info p) = STM32MP_DDR_S_SIZE plat \<and>
           image_base (image_info p2) = image_base (image_info p)"
proof -
  have one: "\<exists>p. t' BL32_EXTRA2_IMAGE_ID = Some p \<and>
           image_base (image_info p) =
             STM32MP_DDR_BASE plat + dt_get_ddr_size plat - STM32MP_DDR_S_SIZE plat -
             STM32MP_DDR_SHMEM_SIZE plat \<and>
           image_max_size (image_info p) = STM32MP_DDR_S_SIZE plat"
    if run: "bl2_plat_handle_post_image_load plat c FW_CONFIG_ID t = Inr (q, t', rq)"
      and ent: "dyn_cfg_dtb_info_getter c BL32_IMAGE_ID = Some e"
    for c t q t' rq e
  proof -
    let ?idx = "dyn_cfg_dtb_info_get_index c TOS_FW_CONFIG_ID"
    from post_fw_config [OF run] obtain ro where
      l: "fw_config_loop plat c ?idx t image_ids = Inr (ro, t')" ..
    then obtain r1 t1 where
      e: "fw_config_entry plat c ?idx t BL32_IMAGE_ID = Inr (r1, t1)"
      by (auto simp: image_ids_def split: sum.splits)
    have "BL32_IMAGE_ID \<in> set image_ids" by (simp add: image_ids_def)
    from entry_no_return [OF this e] have "r1 = None" .
    with l e have rest:
      "fw_config_loop plat c ?idx t1 [BL33_IMAGE_ID, HW_CONFIG_ID, TOS_FW_CONFIG_ID] = Inr (ro, t')"
      by (simp add: image_ids_def)
    from loop_frame [OF rest, of BL32_EXTRA2_IMAGE_ID]
    have "t' BL32_EXTRA2_IMAGE_ID = t1 BL32_EXTRA2_IMAGE_ID" by simp
    with entry_paged [OF e ent] show ?thesis by simp
  qed
  from one [OF assms(1,2)] one [OF assms(3,4)] show ?thesis by auto
qed

theorem paged_overlay_placement_witness:
  "bl2_plat_handle_post_image_load (plat_ex False 0) (cs_ex 0xDE000000) FW_CONFIG_ID tbl_ex =
     Inr (0, tbl_resolved 0xDE000000, None) \<and>
   dyn_cfg_dtb_info_getter (cs_ex 0xDE000000) BL32_IMAGE_ID =
     Some \<lparr>config_addr = 0xDE000000, config_max_size = 0x20000, config_id = BL32_IMAGE_ID\<rparr> \<and>
   bl2_plat_handle_post_image_load (plat_ex False 0) (cs_ex 0xC2000000) FW_CONFIG_ID tbl_ex =
     Inr (0, tbl_resolved 0xC2000000, None) \<and>
   dyn_cfg_dtb_info_getter (cs_ex 0xC2000000) BL32_IMAGE_ID =
     Some \<lparr>config_addr = 0xC2000000, config_max_size = 0x20000, config_id = BL32_IMAGE_ID\<rparr> \<and>
   (\<exists>p p2. tbl_resolved 0xDE000000 BL32_EXTRA2_IMAGE_ID = Some p \<and>
      tbl_resolved 0xC2000000 BL32_EXTRA2_IMAGE_ID = Some p2 \<and>
      image_base (image_info p) = 0xDE000000 \<and>
      image_max_size (image_info p) = 0x01E00000 \<and>
      image_base (image_info p2) = image_base (image_info p))"
proof -
  note r1 = post_fw_config_ex [of False 0 "0xDE000000"]
    and r2 = post_fw_config_ex [of False 0 "0xC2000000"]
    and g1 = getter_ex(1) [of "0xDE000000"]
    and g2 = getter_ex(1) [of "0xC2000000"]
  from paged_overlay_placement [OF r1 g1 r2 g2]
  have "\<exists>p p2. tbl_resolved 0xDE000000 BL32_EXTRA2_IMAGE_ID = Some p \<and>
      tbl_resolved 0xC2000000 BL32_EXTRA2_IMAGE_ID = Some p2 \<and>
      image_base (image_info p) = 0xDE000000 \<and>
      image_max_size (image_info p) = 0x01E00000 \<and>
      image_base (image_info p2) = image_base (image_info p)"
    by (simp add: plat_ex_def)
  with r1 g1 r2 g2 show ?thesis by simp
qed

text \<open>
  Claim C7. When the header check fails on the loaded TrustedOS image, its entry point
  becomes its base address, its maximum size grows by the maximum size of the record
  of the TrustedOS config (in 32-bit arithmetic), its first argument word becomes 0,
  and the function returns 0.
\<close>

theorem monolithic_trusted_os:
  assumes "tbl BL32_IMAGE_ID = Some bl"
    and "\<not> optee_header_is_valid plat (image_base (image_info bl))"
    and "tbl TOS_FW_CONFIG_ID = Some tos_fw"
  shows "\<exists>bl' req. bl2_plat_handle_post_image_load plat cs BL32_IMAGE_ID tbl =
             Inr (0, tbl(BL32_IMAGE_ID \<mapsto> bl'), req) \<and>
           pc (ep_info bl') = image_base (image_info bl') \<and>
           image_base (image_info bl') = image_base (image_info bl) \<and>
           image_max_size (image_info bl') =
             image_max_size (image_info bl) + image_max_size (image_info tos_fw) \<and>
           arg0 (ep_info bl') = 0"
proof -
  let ?bl = "bl\<lparr>image_info := (image_info bl)
                 \<lparr>image_max_size := image_max_size (image_info bl) +
                                    image_max_size (image_info tos_fw)\<rparr>,
               ep_info := (ep_info bl)\<lparr>pc := image_base (image_info bl), arg0 := 0\<rparr>\<rparr>"
  let ?tbl = "tbl(BL32_IMAGE_ID \<mapsto> ?bl)"
  from assms have "bl2_plat_handle_post_image_load plat cs BL32_IMAGE_ID tbl =
      Inr (0, ?tbl, mmc_invalidate plat BL32_IMAGE_ID ?tbl)"
    by (simp add: bl2_plat_handle_post_image_load_def get_bl_mem_params_node_def
        bl32_post_load_def set_pc_def Let_def)
  moreover have "pc (ep_info ?bl) = image_base (image_info ?bl)"
    and "image_base (image_info ?bl) = image_base (image_info bl)"
    and "image_max_size (image_info ?bl) =
           image_max_size (image_info bl) + image_max_size (image_info tos_fw)"
    and "arg0 (ep_info ?bl) = 0"
    by simp_all
  ultimately show ?thesis by blast
qed

theorem monolithic_trusted_os_witness:
  "tbl_resolved 0xDE000000 BL32_IMAGE_ID = Some (node_ex 0 0xDE000000 0x20000 0xDE000000) \<and>
   \<not> optee_header_is_valid (plat_ex False 0)
       (image_base (image_info (node_ex 0 0xDE000000 0x20000 0xDE000000))) \<and>
   tbl_resolved 0xDE000000 TOS_FW_CONFIG_ID = Some (node_ex 2 0 0x1000 0) \<and>
   (\<exists>bl' req. bl2_plat_handle_post_image_load (plat_ex False 0) (cs_ex 0xDE000000)
                BL32_IMAGE_ID (tbl_resolved 0xDE000000) =
             Inr (0, (tbl_resolved 0xDE000000)(BL32_IMAGE_ID \<mapsto> bl'), req) \<and>
           pc (ep_info bl') = image_base (image_info bl') \<and>
           image_base (image_info bl') = 0xDE000000 \<and>
           image_max_size (image_info bl') = 0x21000 \<and>
           arg0 (ep_info bl') = 0)"
proof -
  have a: "tbl_resolved 0xDE000000 BL32_IMAGE_ID =
             Some (node_ex 0 0xDE000000 0x20000 0xDE000000)"
    by (simp add: tbl_resolved_def)
  have b: "\<not> optee_header_is_valid (plat_ex False 0)
       (image_base (image_info (node_ex 0 0xDE000000 0x20000 0xDE000000)))"
    by (simp add: plat_ex_def)
  have c: "tbl_resolved 0xDE000000 TOS_FW_CONFIG_ID = Some (node_ex 2 0 0x1000 0)"
    by (simp add: tbl_resolved_def tbl_ex_def)
  from monolithic_trusted_os [OF a b c, of "cs_ex 0xDE000000"] a b c
  show ?thesis by (simp add: node_ex_def)
qed

text \<open>
  Claim C8. When the header check passes on the loaded TrustedOS image and
  \<open>parse_optee_header\<close> then reports an error, the function panics.
\<close>

theorem malformed_header_panics:
  assumes "tbl BL32_IMAGE_ID = Some bl"
    and "optee_header_is_valid plat (image_base (image_info bl))"
    and "tbl BL32_EXTRA1_IMAGE_ID = Some pager"
    and "tbl BL32_EXTRA2_IMAGE_ID = Some paged"
    and "fst (parse_optee_header plat (ep_info (set_pc (image_base (image_info bl)) bl))
               (image_info pager) (image_info paged)) \<noteq> 0"
  shows "bl2_plat_handle_post_image_load plat cs BL32_IMAGE_ID tbl = Inl Panic"
  using assms
  by (simp add: bl2_plat_handle_post_image_load_def get_bl_mem_params_node_def
      bl32_post_load_def Let_def case_prod_beta)

theorem malformed_header_panics_witness:
  "tbl_resolved 0xDE000000 BL32_IMAGE_ID = Some (node_ex 0 0xDE000000 0x20000 0xDE000000) \<and>
   optee_header_is_valid (plat_ex True (- 1))
       (image_base (image_info (node_ex 0 0xDE000000 0x20000 0xDE000000))) \<and>
   tbl_resolved 0xDE000000 BL32_EXTRA1_IMAGE_ID = Some (node_ex 2 0xDE000000 0x20000 0) \<and>
   tbl_resolved 0xDE000000 BL32_EXTRA2_IMAGE_ID = Some (node_ex 2 0xDE000000 0x01E00000 0) \<and>
   fst (parse_optee_header (plat_ex True (- 1))
         (ep_info (set_pc (image_base (image_info (node_ex 0 0xDE000000 0x20000 0xDE000000)))
                     (node_ex 0 0xDE000000 0x20000 0xDE000000)))
         (image_info (node_ex 2 0xDE000000 0x20000 0))
         (image_info (node_ex 2 0xDE000000 0x01E00000 0))) \<noteq> 0 \<and>
   bl2_plat_handle_post_image_load (plat_ex True (- 1)) (cs_ex 0xDE000000) BL32_IMAGE_ID
     (tbl_resolved 0xDE000000) = Inl Panic"
proof -
  have a: "tbl_resolved 0xDE000000 BL32_IMAGE_ID =
             Some (node_ex 0 0xDE000000 0x20000 0xDE000000)"
    by (simp add: tbl_resolved_def)
  have b: "optee_header_is_valid (plat_ex True (- 1))
       (image_base (image_info (node_ex 0 0xDE000000 0x20000 0xDE000000)))"
    by (simp add: plat_ex_def)
  have c: "tbl_resolved 0xDE000000 BL32_EXTRA1_IMAGE_ID = Some (node_ex 2 0xDE000000 0x20000 0)"
    by (simp add: tbl_resolved_def)
  have d: "tbl_resolved 0xDE000000 BL32_EXTRA2_IMAGE_ID =
             Some (node_ex 2 0xDE000000 0x01E00000 0)"
    by (simp add: tbl_resolved_def)
  have e: "fst (parse_optee_header (plat_ex True (- 1))
         (ep_info (set_pc (image_base (image_info (node_ex 0 0xDE000000 0x20000 0xDE000000)))
                     (node_ex 0 0xDE000000 0x20000 0xDE000000)))
         (image_info (node_ex 2 0xDE000000 0x20000 0))
         (image_info (node_ex 2 0xDE000000 0x01E00000 0))) \<noteq> 0"
    by (simp add: plat_ex_def)
  from malformed_header_panics [OF a b c d e, of "cs_ex 0xDE000000"] a b c d e
  show ?thesis by simp
qed

text \<open>
  Claim C10. For an identity other than the firmware config, the TrustedOS and the
  normal-world loader, with its record in the descriptor table as the assertion at the
  head of the function requires, the function returns 0 and leaves the table, and so
  every placement and entry-point field of every record, as it was; the only effect is
  the cache maintenance request, which touches no record.
\<close>

theorem unhandled_image_noop:
  assumes "i \<notin> {FW_CONFIG_ID, BL32_IMAGE_ID, BL33_IMAGE_ID}"
    and "tbl i = Some n"
  shows "bl2_plat_handle_post_image_load plat cs i tbl =
           Inr (0, tbl, mmc_invalidate plat i tbl)"
  using assms
  by (cases i) (simp_all add: bl2_plat_handle_post_image_load_def get_bl_mem_params_node_def)

theorem unhandled_image_noop_witness:
  "HW_CONFIG_ID \<notin> {FW_CONFIG_ID, BL32_IMAGE_ID, BL33_IMAGE_ID} \<and>
   tbl_resolved 0xDE000000 HW_CONFIG_ID = Some (node_ex 0 0xC0000000 0x40000 0) \<and>
   bl2_plat_handle_post_image_load (plat_ex False 0) (cs_ex 0xDE000000) HW_CONFIG_ID
     (tbl_resolved 0xDE000000) =
     Inr (0, tbl_resolved 0xDE000000, Some (0xC0000000, 1024)) \<and>
   BL32_EXTRA1_IMAGE_ID \<notin> {FW_CONFIG_ID, BL32_IMAGE_ID, BL33_IMAGE_ID} \<and>
   tbl_ex BL32_EXTRA1_IMAGE_ID = Some (node_ex 2 0 0 0) \<and>
   bl2_plat_handle_post_image_load (plat_ex False 0) (cs_ex 0xDE000000) BL32_EXTRA1_IMAGE_ID
     tbl_ex = Inr (0, tbl_ex, None)"
proof -
  have a: "HW_CONFIG_ID \<notin> {FW_CONFIG_ID, BL32_IMAGE_ID, BL33_IMAGE_ID}" by simp
  have b: "tbl_resolved 0xDE000000 HW_CONFIG_ID = Some (node_ex 0 0xC0000000 0x40000 0)"
    by (simp add: tbl_resolved_def)
  have c: "BL32_EXTRA1_IMAGE_ID \<notin> {FW_CONFIG_ID, BL32_IMAGE_ID, BL33_IMAGE_ID}" by simp
  have d: "tbl_ex BL32_EXTRA1_IMAGE_ID = Some (node_ex 2 0 0 0)"
    by (simp add: tbl_ex_def)
  have m1: "mmc_invalidate (plat_ex False 0) HW_CONFIG_ID (tbl_resolved 0xDE000000) =
              Some (0xC0000000, 1024)"
    by (simp add: mmc_invalidate_def b plat_ex_def node_ex_def IMAGE_ATTRIB_SKIP_LOADING_def)
  have m2: "mmc_invalidate (plat_ex False 0) BL32_EXTRA1_IMAGE_ID tbl_ex = None"
    by (simp add: mmc_invalidate_def d plat_ex_def node_ex_def IMAGE_ATTRIB_SKIP_LOADING_def)
  from unhandled_image_noop [where i = HW_CONFIG_ID and tbl = "tbl_resolved 0xDE000000"
        and plat = "plat_ex False 0" and cs = "cs_ex 0xDE000000", OF a b]
    unhandled_image_noop [where i = BL32_EXTRA1_IMAGE_ID and tbl = tbl_ex
        and plat = "plat_ex False 0" and cs = "cs_ex 0xDE000000", OF c d]
  show ?thesis
    by (simp add: a b c d m1 m2)
qed

end
